theory Spec2Isabelle
  imports Complex_Main "HOL-Library.AList" "HOL-Library.Sublist"
begin

section \<open>Data model\<close>

text \<open>
  A Python \<^verbatim>\<open>Dict[str, float]\<close> is an association list in insertion order whose keys
  are distinct; a Python float is a real number. \<^verbatim>\<open>d.get(k, default)\<close> is
  \<open>dict_get\<close>, the item assignment \<^verbatim>\<open>d[k] = v\<close> is \<open>dict_set\<close> (an existing key keeps
  its position, a new key goes to the end) and \<^verbatim>\<open>d.update(e)\<close> is \<open>dict_update\<close>.
\<close>

type_synonym scores = "(string \<times> real) list"

definition dict_get :: "(string \<times> 'v) list \<Rightarrow> string \<Rightarrow> 'v \<Rightarrow> 'v" where
  "dict_get d k dflt = (case map_of d k of None \<Rightarrow> dflt | Some v \<Rightarrow> v)"

definition dict_set :: "(string \<times> 'v) list \<Rightarrow> string \<Rightarrow> 'v \<Rightarrow> (string \<times> 'v) list" where
  "dict_set d k v = AList.update k v d"

definition dict_update :: "(string \<times> 'v) list \<Rightarrow> (string \<times> 'v) list \<Rightarrow> (string \<times> 'v) list" where
  "dict_update d e = fold (\<lambda>(k, v) acc. dict_set acc k v) e d"

definition dict_keys :: "(string \<times> 'v) list \<Rightarrow> string list" where
  "dict_keys d = map fst d"

definition dict_values :: "(string \<times> 'v) list \<Rightarrow> 'v list" where
  "dict_values d = map snd d"

text \<open>The expression \<^verbatim>\<open>max(0.0, min(1.0, x))\<close>, which the source writes out at every clamp.\<close>

definition clamp01 :: "real \<Rightarrow> real" where
  "clamp01 x = max 0 (min 1 x)"

section \<open>Configuration (utils/config.py)\<close>

definition voice_dimensions :: "string list" where
  "voice_dimensions =
    [''formality_level'', ''emotional_expressiveness'', ''technical_depth'',
     ''storytelling_style'', ''authority_tone'', ''empathy_level'', ''humor_usage'',
     ''vulnerability_comfort'', ''industry_jargon'', ''communication_pace'',
     ''explanation_style'', ''question_asking_tendency'', ''call_to_action_style'',
     ''personal_experience_sharing'']"

definition INDUSTRY_VOICE_ADJUSTMENTS :: "(string \<times> scores) list" where
  "INDUSTRY_VOICE_ADJUSTMENTS =
    [(''technology'',
        [(''technical_depth'', 1.2), (''formality_level'', 0.9), (''industry_jargon'', 1.3)]),
     (''finance'',
        [(''formality_level'', 1.3), (''authority_tone'', 1.2), (''technical_depth'', 1.1)]),
     (''healthcare'',
        [(''empathy_level'', 1.4), (''technical_depth'', 1.2), (''authority_tone'', 1.1)]),
     (''marketing'',
        [(''emotional_expressiveness'', 1.3), (''storytelling_style'', 1.2),
         (''call_to_action_style'', 1.4)]),
     (''consulting'',
        [(''authority_tone'', 1.2), (''explanation_style'', 1.3),
         (''question_asking_tendency'', 1.2)])]"

section \<open>Voice signature fuser (VoiceAnalyzer._create_voice_signature)\<close>

text \<open>
  \<open>combine_analyses\<close> is the first loop of the source: every analysis is merged into
  \<^verbatim>\<open>combined_data\<close> with \<^verbatim>\<open>update\<close>, so a later analysis overwrites an earlier one.
\<close>

definition combine_analyses :: "scores list \<Rightarrow> scores" where
  "combine_analyses analyses = fold (\<lambda>analysis combined. dict_update combined analysis) analyses []"

definition dimension_mappings :: "scores \<Rightarrow> scores" where
  "dimension_mappings combined_data =
    [(''formality_level'', dict_get combined_data ''formality_level'' 0.5),
     (''emotional_expressiveness'', dict_get combined_data ''emotional_expressiveness'' 0.3),
     (''technical_depth'',
        dict_get combined_data ''technical_depth''
          (dict_get combined_data ''technical_density'' 0 * 2)),
     (''storytelling_style'', dict_get combined_data ''storytelling_style'' 0.3),
     (''authority_tone'', dict_get combined_data ''authority_tone'' 0.4),
     (''empathy_level'', dict_get combined_data ''empathy_level'' 0.4),
     (''humor_usage'', dict_get combined_data ''humor_usage'' 0.1),
     (''vulnerability_comfort'', dict_get combined_data ''vulnerability_comfort'' 0.3),
     (''industry_jargon'',
        dict_get combined_data ''industry_jargon''
          (dict_get combined_data ''entity_density'' 0 * 3)),
     (''communication_pace'', dict_get combined_data ''communication_pace'' 0.5),
     (''explanation_style'',
        dict_get combined_data ''explanation_style''
          (dict_get combined_data ''avg_sentence_length'' 15 / 30)),
     (''question_asking_tendency'', dict_get combined_data ''question_asking_tendency'' 0.2),
     (''call_to_action_style'', dict_get combined_data ''call_to_action_style'' 0.3),
     (''personal_experience_sharing'',
        dict_get combined_data ''personal_experience_sharing'' 0.4)]"

definition create_voice_signature :: "scores list \<Rightarrow> scores" where
  "create_voice_signature analyses =
    fold (\<lambda>(dimension, score) voice_signature.
            dict_set voice_signature dimension (max 0 (min 1 score)))
         (dimension_mappings (combine_analyses analyses)) []"

section \<open>Confidence scorer (VoiceAnalyzer._calculate_confidence_score)\<close>

text \<open>
  \<^verbatim>\<open>statistics.variance\<close> of the standard library is the sample variance: the sum of the
  squared deviations from the mean, divided by \<open>n - 1\<close>. It raises StatisticsError on
  fewer than two values, which is \<open>None\<close> here.
\<close>

definition mean :: "real list \<Rightarrow> real" where
  "mean xs = sum_list xs / real (length xs)"

definition sample_variance :: "real list \<Rightarrow> real" where
  "sample_variance xs = (\<Sum>x\<leftarrow>xs. (x - mean xs)\<^sup>2) / (real (length xs) - 1)"

definition statistics_variance :: "real list \<Rightarrow> real option" where
  "statistics_variance xs = (if length xs < 2 then None else Some (sample_variance xs))"

text \<open>
  The body of the source is in a \<^verbatim>\<open>try\<close> whose handler returns 0.5; the only call that
  can raise is \<^verbatim>\<open>statistics.variance\<close>, and the source guards it with
  \<^verbatim>\<open>len(scores) > 1\<close>.
\<close>

definition calculate_confidence_score :: "scores \<Rightarrow> int \<Rightarrow> int \<Rightarrow> real" where
  "calculate_confidence_score voice_signature text_length conversation_turns =
    (let length_factor = min (real_of_int text_length / 1000) 1;
         turns_factor = min (real_of_int conversation_turns / 5) 1;
         expected_dimensions = length voice_dimensions;
         actual_dimensions = length (filter (\<lambda>v. v > 0) (dict_values voice_signature));
         completeness_factor = real actual_dimensions / real expected_dimensions;
         scores = dict_values voice_signature
     in case (if length scores > 1 then statistics_variance scores else Some 0) of
          None \<Rightarrow> 0.5
        | Some score_variance \<Rightarrow>
            (let consistency_factor = max 0.5 (1 - score_variance);
                 confidence = length_factor * 0.3 + turns_factor * 0.2 +
                              completeness_factor * 0.3 + consistency_factor * 0.2
             in max 0 (min 1 confidence)))"

text \<open>
  The formula of the specification, in its words: the four factors with the weights
  0.3, 0.2, 0.3 and 0.2, the sum clamped to [0, 1].
\<close>

definition spec_confidence :: "scores \<Rightarrow> int \<Rightarrow> int \<Rightarrow> real" where
  "spec_confidence signature text_length turn_count =
    clamp01
      (0.3 * min (real_of_int text_length / 1000) 1 +
       0.2 * min (real_of_int turn_count / 5) 1 +
       0.3 * (real (length (filter (\<lambda>(d, v). v > 0) signature)) / 14) +
       0.2 * max 0.5 (1 - sample_variance (map snd signature)))"

section \<open>Industry adjustments (VoiceAnalyzer.apply_industry_adjustments)\<close>

text \<open>
  \<open>adjust_dimension\<close> is the body of the loop over the adjustments of the industry. The test
  \<^verbatim>\<open>dimension in adjusted_signature\<close> and the read \<^verbatim>\<open>adjusted_signature[dimension]\<close>
  that follows it are one lookup here.
\<close>

definition adjust_dimension :: "string \<times> real \<Rightarrow> scores \<Rightarrow> scores" where
  "adjust_dimension = (\<lambda>(dimension, multiplier) adjusted_signature.
      case map_of adjusted_signature dimension of
        None \<Rightarrow> adjusted_signature
      | Some current \<Rightarrow>
          (let adjusted_value = current * multiplier
           in dict_set adjusted_signature dimension (max 0 (min 1 adjusted_value))))"

definition apply_industry_adjustments :: "scores \<Rightarrow> string \<Rightarrow> scores" where
  "apply_industry_adjustments voice_signature industry =
    (case map_of INDUSTRY_VOICE_ADJUSTMENTS industry of
       None \<Rightarrow> voice_signature
     | Some adjustments \<Rightarrow> fold adjust_dimension adjustments voice_signature)"

section \<open>Profile comparator (models/voice_profile.py)\<close>

text \<open>
  Of a \<^verbatim>\<open>VoiceProfile\<close> the comparison reads the user id and the voice signature only.
  The constructor of \<^verbatim>\<open>VoiceProfileComparison\<close> validates
  \<^verbatim>\<open>overall_similarity\<close> against \<^verbatim>\<open>ge=0.0, le=1.0\<close> and raises otherwise.
\<close>

datatype py_error =
    IndexError
  | ValueError
  | ValidationError
  | InsufficientText nat

record voice_profile =
  user_id :: string
  voice_signature :: scores

record voice_profile_comparison =
  profile1_id :: string
  profile2_id :: string
  overall_similarity :: real
  dimension_similarities :: scores
  differences :: scores
  recommendation :: "string option"

definition get_voice_dimension :: "voice_profile \<Rightarrow> string \<Rightarrow> real" where
  "get_voice_dimension self dimension = dict_get (voice_signature self) dimension 0.0"

text \<open>
  \<^verbatim>\<open>all_dimensions\<close> is a Python set; the loop visits each of its elements once, here
  in the order of first occurrence.
\<close>

definition all_dimensions :: "voice_profile \<Rightarrow> voice_profile \<Rightarrow> string list" where
  "all_dimensions profile1 profile2 =
    remdups (dict_keys (voice_signature profile1) @ dict_keys (voice_signature profile2))"

definition compare_dimensions ::
  "voice_profile \<Rightarrow> voice_profile \<Rightarrow> string list \<Rightarrow> scores \<times> scores \<times> real list" where
  "compare_dimensions profile1 profile2 dims =
    fold (\<lambda>dimension (similarity_by_dimension, difference_by_dimension, similarities).
            (let score1 = get_voice_dimension profile1 dimension;
                 score2 = get_voice_dimension profile2 dimension;
                 diff = \<bar>score1 - score2\<bar>;
                 similarity = 1.0 - diff
             in (dict_set similarity_by_dimension dimension similarity,
                 dict_set difference_by_dimension dimension diff,
                 similarities @ [similarity])))
         dims ([], [], [])"

definition recommend :: "real \<Rightarrow> string" where
  "recommend overall =
    (if overall > 0.8
       then ''Very similar communication styles - content can be highly consistent''
     else if overall > 0.6
       then ''Similar styles with some variation - good for content diversity''
     else if overall > 0.4
       then ''Moderate differences - consider adapting content approach''
     else ''Significant style differences - may need separate content strategies'')"

definition compare_profiles ::
  "voice_profile \<Rightarrow> voice_profile \<Rightarrow> py_error + voice_profile_comparison" where
  "compare_profiles profile1 profile2 =
    (case compare_dimensions profile1 profile2 (all_dimensions profile1 profile2) of
       (similarity_by_dimension, difference_by_dimension, similarities) \<Rightarrow>
         (let overall = (if similarities \<noteq> []
                         then sum_list similarities / real (length similarities)
                         else 0.0)
          in if 0 \<le> overall \<and> overall \<le> 1
             then Inr \<lparr>profile1_id = user_id profile1,
                       profile2_id = user_id profile2,
                       overall_similarity = overall,
                       dimension_similarities = similarity_by_dimension,
                       differences = difference_by_dimension,
                       recommendation = Some (recommend overall)\<rparr>
             else Inl ValidationError))"

section \<open>Strings\<close>

text \<open>
  A Python string is a list of characters; a character stands for a code point below 256.
  \<open>lower_char\<close> is \<^verbatim>\<open>str.lower\<close> on one such character: the letters A to Z and the
  capital letters of the range 192 to 222 (all but the multiplication sign 215) are
  replaced by their small letters, 32 code points up.
\<close>

definition upper_letters :: "char list" where
  "upper_letters = ''ABCDEFGHIJKLMNOPQRSTUVWXYZ'' @
     [CHR 0xC0, CHR 0xC1, CHR 0xC2, CHR 0xC3, CHR 0xC4, CHR 0xC5, CHR 0xC6, CHR
     0xC7, CHR 0xC8, CHR 0xC9, CHR 0xCA, CHR 0xCB, CHR 0xCC, CHR 0xCD, CHR 0xCE, CHR
     0xCF, CHR 0xD0, CHR 0xD1, CHR 0xD2, CHR 0xD3, CHR 0xD4, CHR 0xD5, CHR 0xD6, CHR
     0xD8, CHR 0xD9, CHR 0xDA, CHR 0xDB, CHR 0xDC, CHR 0xDD, CHR 0xDE]"

definition lower_letters :: "char list" where
  "lower_letters = ''abcdefghijklmnopqrstuvwxyz'' @
     [CHR 0xE0, CHR 0xE1, CHR 0xE2, CHR 0xE3, CHR 0xE4, CHR 0xE5, CHR 0xE6, CHR
     0xE7, CHR 0xE8, CHR 0xE9, CHR 0xEA, CHR 0xEB, CHR 0xEC, CHR 0xED, CHR 0xEE, CHR
     0xEF, CHR 0xF0, CHR 0xF1, CHR 0xF2, CHR 0xF3, CHR 0xF4, CHR 0xF5, CHR 0xF6, CHR
     0xF8, CHR 0xF9, CHR 0xFA, CHR 0xFB, CHR 0xFC, CHR 0xFD, CHR 0xFE]"

definition lower_char :: "char \<Rightarrow> char" where
  "lower_char c = (case map_of (zip upper_letters lower_letters) c of None \<Rightarrow> c | Some l \<Rightarrow> l)"

definition str_lower :: "string \<Rightarrow> string" where
  "str_lower s = map lower_char s"

text \<open>The test \<^verbatim>\<open>sub in s\<close> on strings: \<open>sub\<close> occurs in \<open>s\<close> as a contiguous block.\<close>

fun str_contains :: "string \<Rightarrow> string \<Rightarrow> bool" where
  "str_contains sub [] = (sub = [])"
| "str_contains sub (c # cs) = (prefix sub (c # cs) \<or> str_contains sub cs)"

section \<open>Template selector (TemplateManager.get_template_for_voice_profile)\<close>

text \<open>
  A template is a dictionary with fixed keys. The selector reads \<^verbatim>\<open>content_type\<close>,
  \<^verbatim>\<open>use_case\<close> and \<^verbatim>\<open>name\<close>; the record leaves out the two keys that hold the text
  skeleton and the schema of its variables (\<^verbatim>\<open>template_structure\<close>, \<^verbatim>\<open>variables\<close>).
\<close>

record template =
  template_id :: string
  name :: string
  description :: string
  content_type :: string
  industry_tags :: "string list"
  use_case :: string

definition get_default_templates :: "template list" where
  "get_default_templates =
    [\<lparr>template_id = ''professional_insight'', name = ''Professional Insight'',
      description = ''Share a professional insight or lesson learned'',
      content_type = ''post'',
      industry_tags = [''technology'', ''business'', ''marketing'', ''finance''],
      use_case = ''thought_leadership''\<rparr>,
     \<lparr>template_id = ''personal_story'', name = ''Personal Story'',
      description = ''Share a personal experience with professional relevance'',
      content_type = ''post'',
      industry_tags = [''leadership'', ''career'', ''entrepreneurship''],
      use_case = ''personal_story''\<rparr>,
     \<lparr>template_id = ''industry_commentary'', name = ''Industry Commentary'',
      description = ''Comment on industry trends or news'',
      content_type = ''post'',
      industry_tags = [''technology'', ''business'', ''marketing'', ''finance''],
      use_case = ''thought_leadership''\<rparr>,
     \<lparr>template_id = ''career_milestone'', name = ''Career Milestone Achievement'',
      description = ''Celebrate a career achievement or milestone'',
      content_type = ''post'',
      industry_tags = [''career'', ''leadership'', ''business''],
      use_case = ''personal_update''\<rparr>,
     \<lparr>template_id = ''problem_solution'', name = ''Problem-Solution Case Study'',
      description = ''Present a business problem and solution approach'',
      content_type = ''post'',
      industry_tags = [''business'', ''consulting'', ''strategy''],
      use_case = ''thought_leadership''\<rparr>,
     \<lparr>template_id = ''learning_development'', name = ''Learning & Development Update'',
      description = ''Share learning experiences and professional development'',
      content_type = ''post'',
      industry_tags = [''education'', ''career'', ''development''],
      use_case = ''personal_update''\<rparr>,
     \<lparr>template_id = ''quick_tip'', name = ''Quick Professional Tips'',
      description = ''Share actionable professional advice'',
      content_type = ''post'',
      industry_tags = [''productivity'', ''business'', ''career''],
      use_case = ''professional_advice''\<rparr>,
     \<lparr>template_id = ''networking_connection'', name = ''Networking Connection Request'',
      description = ''Professional networking and connection posts'',
      content_type = ''post'',
      industry_tags = [''networking'', ''business'', ''career''],
      use_case = ''networking''\<rparr>,
     \<lparr>template_id = ''thought_leadership_long'', name = ''Thought Leadership Article'',
      description = ''In-depth thought leadership content'',
      content_type = ''article'',
      industry_tags = [''leadership'', ''strategy'', ''innovation''],
      use_case = ''thought_leadership''\<rparr>,
     \<lparr>template_id = ''company_update'', name = ''Company News Announcement'',
      description = ''Share company news and updates professionally'',
      content_type = ''post'',
      industry_tags = [''business'', ''company'', ''updates''],
      use_case = ''company_news''\<rparr>]"

text \<open>
  \<open>score_template\<close> is the body of the scoring loop. \<open>max_first\<close> is
  \<^verbatim>\<open>max(xs, key=...)\<close> on a list with first element \<open>best\<close>: the first element with the
  greatest key.
\<close>

definition score_template :: "scores \<Rightarrow> template \<Rightarrow> real" where
  "score_template signature t =
    (let storytelling_score = dict_get signature ''storytelling_style'' 0.3;
         authority_score = dict_get signature ''authority_tone'' 0.4;
         personal_score = dict_get signature ''personal_experience_sharing'' 0.4;
         technical_score = dict_get signature ''technical_depth'' 0.3;
         score = 0.0;
         score = (if use_case t = ''personal_story'' \<and> storytelling_score > 0.5
                    then score + 3.0
                  else if use_case t = ''thought_leadership'' \<and> authority_score > 0.5
                    then score + 3.0
                  else if use_case t = ''personal_update'' \<and> personal_score > 0.5
                    then score + 2.0
                  else if use_case t = ''professional_advice'' \<and> technical_score > 0.4
                    then score + 2.0
                  else score + 1.0);
         score = (if str_contains ''story'' (str_lower (name t)) \<and> storytelling_score > 0.4
                    then score + 1.5 else score);
         score = (if str_contains ''insight'' (str_lower (name t)) \<and> authority_score > 0.4
                    then score + 1.5 else score);
         score = (if str_contains ''personal'' (str_lower (name t)) \<and> personal_score > 0.4
                    then score + 1.5 else score)
     in score)"

fun max_first :: "('a \<Rightarrow> real) \<Rightarrow> 'a \<Rightarrow> 'a list \<Rightarrow> 'a" where
  "max_first key best [] = best"
| "max_first key best (x # xs) = max_first key (if key x > key best then x else best) xs"

definition get_template_for_voice_profile :: "scores \<Rightarrow> string \<Rightarrow> py_error + template" where
  "get_template_for_voice_profile signature requested_type =
    (let templates = get_default_templates;
         matching_templates = filter (\<lambda>t. content_type t = requested_type) templates
     in if matching_templates = []
        then (case templates of [] \<Rightarrow> Inl IndexError | t # rest \<Rightarrow> Inr t)
        else (case map (\<lambda>t. (t, score_template signature t)) matching_templates of
                [] \<Rightarrow> Inl ValueError
              | first # rest \<Rightarrow> Inr (fst (max_first snd first rest))))"

section \<open>Voice analysis entry point (VoiceAnalyzer.analyze_voice)\<close>

text \<open>
  \<open>str_strip\<close> is \<^verbatim>\<open>str.strip()\<close>: it removes the white space at both ends, white space
  being the code points 9 to 13, 28 to 32, 133 and 160. \<open>str_join\<close> is
  \<^verbatim>\<open>sep.join(xs)\<close>.
\<close>

definition whitespace :: "char list" where
  "whitespace =
    [CHR 0x09, CHR 0x0A, CHR 0x0B, CHR 0x0C, CHR 0x0D, CHR 0x1C, CHR 0x1D, CHR 0x1E,
     CHR 0x1F, CHR 0x20, CHR 0x85, CHR 0xA0]"

definition is_space :: "char \<Rightarrow> bool" where
  "is_space c = (c \<in> set whitespace)"

definition str_strip :: "string \<Rightarrow> string" where
  "str_strip s = rev (dropWhile is_space (rev (dropWhile is_space s)))"

fun str_join :: "string \<Rightarrow> string list \<Rightarrow> string" where
  "str_join sep [] = []"
| "str_join sep [x] = x"
| "str_join sep (x # y # ys) = x @ sep @ str_join sep (y # ys)"

text \<open>
  One element of \<^verbatim>\<open>conversation_data\<close> is a dictionary; the keys \<^verbatim>\<open>transcription\<close> and
  \<^verbatim>\<open>metadata\<close> may be missing, which is \<open>None\<close>.
\<close>

record conversation_item =
  question_id :: string
  transcription :: "string option"
  metadata :: "(string \<times> string) list option"

definition combine_transcriptions :: "conversation_item list \<Rightarrow> string" where
  "combine_transcriptions conversation_data =
    str_join '' ''
      (filter (\<lambda>t. t \<noteq> [])
         (map (\<lambda>item. str_strip (case transcription item of None \<Rightarrow> [] | Some t \<Rightarrow> t))
              conversation_data))"

text \<open>
  The four analyses run on the combined text use a tagger, regular expressions and a remote
  model; they are parameters of the entry point. Each returns a partial mapping and never
  raises. \<open>min_transcription_length\<close> is the setting of that name (50 unless the
  environment overrides it).
\<close>

record analyses =
  analyze_linguistic_patterns :: "string \<Rightarrow> scores"
  analyze_communication_style :: "string \<Rightarrow> conversation_item list \<Rightarrow> scores"
  analyze_emotional_patterns :: "string \<Rightarrow> scores"
  ai_enhanced_analysis :: "string \<Rightarrow> conversation_item list \<Rightarrow> scores"

record analysis_result =
  result_signature :: scores
  confidence_score :: real
  details_text_length :: nat
  details_conversation_turns :: nat
  details_analysis_dimensions :: nat

text \<open>
  The first statement of the source logs the conversation id of
  \<^verbatim>\<open>conversation_data[0]\<close>, before the \<^verbatim>\<open>try\<close>: on an empty list that is an IndexError.
  Inside the \<^verbatim>\<open>try\<close> a combined text below the minimum raises the exception
  "Insufficient text for analysis", which the handler logs and raises again.
\<close>

definition analyze_voice ::
  "int \<Rightarrow> analyses \<Rightarrow> conversation_item list \<Rightarrow> string \<Rightarrow> py_error + analysis_result" where
  "analyze_voice min_transcription_length an conversation_data uid =
    (case conversation_data of
       [] \<Rightarrow> Inl IndexError
     | first # rest \<Rightarrow>
         (let full_text = combine_transcriptions conversation_data
          in if int (length full_text) < min_transcription_length
             then Inl (InsufficientText (length full_text))
             else
               (let linguistic_analysis = analyze_linguistic_patterns an full_text;
                    style_analysis = analyze_communication_style an full_text conversation_data;
                    emotional_analysis = analyze_emotional_patterns an full_text;
                    ai_analysis = ai_enhanced_analysis an full_text conversation_data;
                    signature = create_voice_signature
                      [linguistic_analysis, style_analysis, emotional_analysis, ai_analysis];
                    confidence = calculate_confidence_score signature
                      (int (length full_text)) (int (length conversation_data))
                in Inr \<lparr>result_signature = signature,
                         confidence_score = confidence,
                         details_text_length = length full_text,
                         details_conversation_turns = length conversation_data,
                         details_analysis_dimensions = length signature\<rparr>)))"

text \<open>
  The comparison in the words of the specification: the similarity of a dimension is
  1 - |scoreA - scoreB| with 0.0 for a dimension that a signature lacks, and the overall
  similarity is the arithmetic mean of these over the union of the dimensions of the two
  signatures. \<open>unit_scores\<close> is the invariant of a voice signature: every value in [0, 1].
\<close>

definition spec_similarity :: "scores \<Rightarrow> scores \<Rightarrow> string \<Rightarrow> real" where
  "spec_similarity sigA sigB d = 1 - \<bar>dict_get sigA d 0 - dict_get sigB d 0\<bar>"

definition spec_overall_similarity :: "scores \<Rightarrow> scores \<Rightarrow> real" where
  "spec_overall_similarity sigA sigB =
    (\<Sum>d \<in> set (dict_keys sigA) \<union> set (dict_keys sigB). spec_similarity sigA sigB d) /
      real (card (set (dict_keys sigA) \<union> set (dict_keys sigB)))"

definition unit_scores :: "scores \<Rightarrow> bool" where
  "unit_scores sig = list_all (\<lambda>v. 0 \<le> v \<and> v \<le> 1) (dict_values sig)"

text \<open>
  The fallback policy of the fuser, stated as a table: three dimensions have a default that
  is computed from another signal of the merged data, the other eleven a constant.
  \<open>default_signature\<close> is the signature that results when no signal is present at all.
\<close>

definition derived_default :: "scores \<Rightarrow> string \<Rightarrow> real option" where
  "derived_default combined d =
    (if d = ''technical_depth'' then Some (dict_get combined ''technical_density'' 0 * 2)
     else if d = ''industry_jargon'' then Some (dict_get combined ''entity_density'' 0 * 3)
     else if d = ''explanation_style''
       then Some (dict_get combined ''avg_sentence_length'' 15 / 30)
     else None)"

definition constant_defaults :: scores where
  "constant_defaults =
    [(''formality_level'', 0.5), (''emotional_expressiveness'', 0.3),
     (''storytelling_style'', 0.3), (''authority_tone'', 0.4), (''empathy_level'', 0.4),
     (''humor_usage'', 0.1), (''vulnerability_comfort'', 0.3), (''communication_pace'', 0.5),
     (''question_asking_tendency'', 0.2), (''call_to_action_style'', 0.3),
     (''personal_experience_sharing'', 0.4)]"

definition fuser_default :: "scores \<Rightarrow> string \<Rightarrow> real" where
  "fuser_default combined d =
    (case derived_default combined d of
       Some v \<Rightarrow> v
     | None \<Rightarrow> dict_get constant_defaults d 0)"

definition default_signature :: scores where
  "default_signature =
    [(''formality_level'', 0.5), (''emotional_expressiveness'', 0.3),
     (''technical_depth'', 0), (''storytelling_style'', 0.3), (''authority_tone'', 0.4),
     (''empathy_level'', 0.4), (''humor_usage'', 0.1), (''vulnerability_comfort'', 0.3),
     (''industry_jargon'', 0), (''communication_pace'', 0.5), (''explanation_style'', 0.5),
     (''question_asking_tendency'', 0.2), (''call_to_action_style'', 0.3),
     (''personal_experience_sharing'', 0.4)]"

section \<open>Properties of dictionaries\<close>

lemma map_of_dict_set:
  "map_of (dict_set d k v) = (map_of d)(k \<mapsto> v)"
  by (simp add: dict_set_def update_conv')

lemma dict_keys_dict_set_absent:
  "k \<notin> set (dict_keys d) \<Longrightarrow> dict_set d k v = d @ [(k, v)]"
  unfolding dict_set_def dict_keys_def by (induction d) auto

lemma fold_dict_set_fresh:
  "distinct (map fst xs) \<Longrightarrow> set (map fst xs) \<inter> set (dict_keys acc) = {} \<Longrightarrow>
   fold (\<lambda>(k, v) d. dict_set d k (f v)) xs acc = acc @ map (\<lambda>(k, v). (k, f v)) xs"
proof (induction xs arbitrary: acc)
  case Nil
  then show ?case by simp
next
  case (Cons x xs)
  obtain k v where x: "x = (k, v)" by (cases x)
  from Cons.prems x have fresh: "k \<notin> set (dict_keys acc)" by auto
  have step: "dict_set acc k (f v) = acc @ [(k, f v)]"
    using fresh by (rule dict_keys_dict_set_absent)
  have "set (map fst xs) \<inter> set (dict_keys (acc @ [(k, f v)])) = {}"
    using Cons.prems x by (auto simp: dict_keys_def)
  with Cons.IH [of "acc @ [(k, f v)]"] Cons.prems step x show ?case by simp
qed

lemma map_of_dict_update: "map_of (dict_update d e) = map_of d ++ map_of (rev e)"
  unfolding dict_update_def
proof (induction e arbitrary: d)
  case Nil
  then show ?case by simp
next
  case (Cons x e)
  obtain k v where x: "x = (k, v)" by (cases x)
  have "fold (\<lambda>(k, v) acc. dict_set acc k v) (x # e) d
          = fold (\<lambda>(k, v) acc. dict_set acc k v) e (dict_set d k v)"
    using x by simp
  also have "map_of \<dots> = map_of (dict_set d k v) ++ map_of (rev e)"
    by (rule Cons.IH)
  also have "\<dots> = map_of d ++ map_of (rev (x # e))"
    unfolding x by (rule ext) (simp add: map_of_dict_set map_add_def split: option.splits)
  finally show ?case .
qed

lemma map_of_map_value: "map_of (map (\<lambda>(d, s). (d, f s)) xs) k = map_option f (map_of xs k)"
  by (induction xs) auto

section \<open>Properties of the fuser\<close>

lemma dimension_mappings_keys:
  "map fst (dimension_mappings c) = voice_dimensions"
  by (simp add: dimension_mappings_def voice_dimensions_def)

lemma distinct_voice_dimensions: "distinct voice_dimensions"
  by (simp add: voice_dimensions_def)

lemma length_voice_dimensions: "length voice_dimensions = 14"
  by (simp add: voice_dimensions_def)

lemma create_voice_signature_map:
  "create_voice_signature analyses =
    map (\<lambda>(d, s). (d, max 0 (min 1 s))) (dimension_mappings (combine_analyses analyses))"
proof -
  have "distinct (map fst (dimension_mappings (combine_analyses analyses)))"
    by (simp add: dimension_mappings_keys distinct_voice_dimensions)
  then show ?thesis
    unfolding create_voice_signature_def
    using fold_dict_set_fresh [of "dimension_mappings (combine_analyses analyses)" "[]"
                                   "\<lambda>s. max 0 (min 1 s)"]
    by (simp add: dict_keys_def)
qed

text \<open>
  C1. Whatever partial analyses the fuser is given, the voice signature it returns has
  exactly the 14 canonical dimensions as its keys (each once, in the order of the
  configuration), and every value lies between 0 and 1.
\<close>

theorem create_voice_signature_canonical:
  "dict_keys (create_voice_signature analyses) = voice_dimensions \<and>
   length (create_voice_signature analyses) = 14 \<and>
   distinct (dict_keys (create_voice_signature analyses)) \<and>
   (\<forall>(d, v) \<in> set (create_voice_signature analyses). 0 \<le> v \<and> v \<le> 1)"
proof -
  have "map fst (map (\<lambda>(d, s). (d, max 0 (min 1 s))) xs) = map fst xs"
    for xs :: scores by (induction xs) auto
  then have keys: "dict_keys (create_voice_signature analyses) = voice_dimensions"
    by (simp only: create_voice_signature_map dict_keys_def dimension_mappings_keys)
  have len: "length (create_voice_signature analyses) = 14"
    using keys length_voice_dimensions by (metis dict_keys_def length_map)
  have vals: "\<forall>(d, v) \<in> set (create_voice_signature analyses). 0 \<le> v \<and> v \<le> 1"
    by (auto simp: create_voice_signature_map)
  from keys len vals distinct_voice_dimensions show ?thesis by simp
qed

lemmas fuser_eval =
  create_voice_signature_map dimension_mappings_def combine_analyses_def dict_update_def
  dict_set_def dict_get_def

theorem create_voice_signature_canonical_witness:
  "dict_keys (create_voice_signature [[(''formality_level'', 2)], []]) = voice_dimensions \<and>
   (''formality_level'', 1) \<in> set (create_voice_signature [[(''formality_level'', 2)], []]) \<and>
   (0::real) \<le> 1 \<and> (1::real) \<le> 1"
proof -
  let ?sig = "create_voice_signature [[(''formality_level'', 2)], []]"
  have mem: "(''formality_level'', 1) \<in> set ?sig"
    by (simp add: fuser_eval)
  have keys: "dict_keys ?sig = voice_dimensions"
    and bounds: "\<forall>(d, v) \<in> set ?sig. 0 \<le> v \<and> v \<le> 1"
    using create_voice_signature_canonical [of "[[(''formality_level'', 2)], []]"] by blast+
  from bounds mem have "(0::real) \<le> 1 \<and> (1::real) \<le> 1" by blast
  with keys mem show ?thesis by blast
qed

text \<open>
  The merged data: a key is looked up in the last analysis that has it (within one
  analysis, the last pair of that key).
\<close>

lemma combine_analyses_lookup:
  "map_of (combine_analyses analyses) = fold (\<lambda>a m. m ++ map_of (rev a)) analyses Map.empty"
proof -
  have "map_of (fold (\<lambda>a c. dict_update c a) analyses acc)
          = fold (\<lambda>a m. m ++ map_of (rev a)) analyses (map_of acc)" for acc :: scores
    by (induction analyses arbitrary: acc) (simp_all add: map_of_dict_update)
  from this [of "[]"] show ?thesis by (simp add: combine_analyses_def)
qed

lemma combine_analyses_empty:
  "\<forall>a \<in> set analyses. a = [] \<Longrightarrow> combine_analyses analyses = []"
  unfolding combine_analyses_def
  by (induction analyses) (auto simp: dict_update_def)

lemma dimension_mappings_lookup:
  "d \<in> set voice_dimensions \<Longrightarrow>
   map_of (dimension_mappings c) d =
     Some (case map_of c d of Some v \<Rightarrow> v | None \<Rightarrow> fuser_default c d)"
  apply (simp only: voice_dimensions_def set_simps insert_iff empty_iff)
  apply (elim disjE)
  apply (simp_all add: dimension_mappings_def dict_get_def fuser_default_def
      derived_default_def constant_defaults_def split: option.splits)
  done

lemma create_voice_signature_no_signal: "create_voice_signature [] = default_signature"
  by (simp add: fuser_eval default_signature_def)

text \<open>
  C2 (as stated, refuted). The claim says that only technical_depth and industry_jargon
  have a derived default and that every other dimension falls back to a constant. Two
  inputs without an explanation_style entry give two different explanation_style values:
  the default of that dimension is avg_sentence_length / 30.
\<close>

theorem explanation_style_default_not_constant:
  "map_of (combine_analyses [[(''avg_sentence_length'', 30)]]) ''explanation_style'' = None \<and>
   map_of (combine_analyses [[]]) ''explanation_style'' = None \<and>
   map_of (create_voice_signature [[(''avg_sentence_length'', 30)]]) ''explanation_style''
     = Some 1 \<and>
   map_of (create_voice_signature [[]]) ''explanation_style'' = Some (1 / 2)"
  by (simp add: fuser_eval)

text \<open>
  C2 (amended). For each of the 14 canonical dimensions the fuser uses the merged value
  when the merged data has one, and otherwise the default of \<open>fuser_default\<close>: derived for
  technical_depth (technical_density times 2, with 0 for a missing signal), industry_jargon
  (entity_density times 3, with 0 for a missing signal) and explanation_style
  (avg_sentence_length divided by 30, with 15 for a missing signal), a constant for the
  other eleven; the value is then clamped to [0, 1]. When every input mapping is empty the
  result is \<open>default_signature\<close>.
\<close>

theorem create_voice_signature_defaults:
  "(\<forall>d \<in> set voice_dimensions.
      map_of (create_voice_signature analyses) d =
        Some (clamp01 (case map_of (combine_analyses analyses) d of
                         Some v \<Rightarrow> v
                       | None \<Rightarrow> fuser_default (combine_analyses analyses) d))) \<and>
   ((\<forall>a \<in> set analyses. a = []) \<longrightarrow> create_voice_signature analyses = default_signature)"
proof (intro conjI ballI impI)
  fix d assume "d \<in> set voice_dimensions"
  then show "map_of (create_voice_signature analyses) d =
        Some (clamp01 (case map_of (combine_analyses analyses) d of
                         Some v \<Rightarrow> v
                       | None \<Rightarrow> fuser_default (combine_analyses analyses) d))"
    by (simp add: create_voice_signature_map map_of_map_value dimension_mappings_lookup
        clamp01_def)
next
  assume "\<forall>a \<in> set analyses. a = []"
  then have "combine_analyses analyses = combine_analyses []"
    by (simp add: combine_analyses_empty)
  then have "create_voice_signature analyses = create_voice_signature []"
    by (simp add: create_voice_signature_def)
  then show "create_voice_signature analyses = default_signature"
    by (simp only: create_voice_signature_no_signal)
qed

theorem create_voice_signature_defaults_witness:
  "''technical_depth'' \<in> set voice_dimensions \<and>
   map_of (create_voice_signature [[(''technical_density'', 0.2)], []]) ''technical_depth''
     = Some 0.4 \<and>
   list_all (\<lambda>a. a = []) [[], []::scores] \<and>
   create_voice_signature [[], []] = default_signature"
proof -
  let ?A = "[[(''technical_density'', 0.2)], []] :: scores list"
  have dim: "''technical_depth'' \<in> set voice_dimensions"
    by (simp add: voice_dimensions_def)
  have empty: "\<forall>a \<in> set [[], []::scores]. a = []" by simp
  have "map_of (create_voice_signature ?A) ''technical_depth'' =
        Some (clamp01 (case map_of (combine_analyses ?A) ''technical_depth'' of
                         Some v \<Rightarrow> v
                       | None \<Rightarrow> fuser_default (combine_analyses ?A) ''technical_depth''))"
    using create_voice_signature_defaults [of ?A] dim by blast
  then have derived: "map_of (create_voice_signature ?A) ''technical_depth'' = Some 0.4"
    by (simp add: combine_analyses_def dict_update_def dict_set_def fuser_default_def
        derived_default_def dict_get_def clamp01_def)
  have "create_voice_signature [[], []] = default_signature"
    using create_voice_signature_defaults [of "[[], []]"] empty by blast
  with dim derived show ?thesis by simp
qed

section \<open>Properties of the confidence scorer\<close>

lemma count_positive_values:
  "length (filter (\<lambda>v. v > 0) (dict_values sig)) = length (filter (\<lambda>(d, v). v > 0) sig)"
  unfolding dict_values_def by (induction sig) auto

text \<open>
  C3. For every voice signature (any dictionary with at least two entries, so that the
  variance is defined), every text length and every turn count, the confidence score is the
  clamp to [0, 1] of 0.3 min(text_length / 1000, 1) + 0.2 min(turn_count / 5, 1) +
  0.3 (number of values above 0) / 14 + 0.2 max(0.5, 1 - variance of the values), the
  variance being the sample variance of \<^verbatim>\<open>statistics.variance\<close>.
\<close>

theorem calculate_confidence_score_formula:
  "2 \<le> length sig \<Longrightarrow>
   calculate_confidence_score sig text_length turn_count =
     spec_confidence sig text_length turn_count"
  by (simp add: calculate_confidence_score_def spec_confidence_def Let_def
      count_positive_values statistics_variance_def length_voice_dimensions clamp01_def
      dict_values_def case_prod_unfold comp_def algebra_simps)

theorem calculate_confidence_score_formula_witness:
  "2 \<le> length default_signature \<and>
   calculate_confidence_score default_signature 500 3 =
     spec_confidence default_signature 500 3 \<and>
   spec_confidence default_signature 500 3 = 32819 / 45500"
proof -
  have len: "2 \<le> length default_signature"
    by (simp add: default_signature_def)
  have "spec_confidence default_signature 500 3 = 32819 / 45500"
    by (simp add: spec_confidence_def default_signature_def sample_variance_def mean_def
        clamp01_def power2_eq_square)
  with len calculate_confidence_score_formula [OF len, of 500 3] show ?thesis by simp
qed

section \<open>Properties of the industry adjustments\<close>

lemma dict_keys_dict_set_present:
  "map_of d k = Some w \<Longrightarrow> dict_keys (dict_set d k v) = dict_keys d"
  unfolding dict_keys_def dict_set_def
  by (induction d) (auto split: if_splits)

lemma adjust_dimension_keys: "dict_keys (adjust_dimension a d) = dict_keys d"
  by (cases a) (auto simp: adjust_dimension_def dict_keys_dict_set_present split: option.splits)

lemma fold_adjust_keys: "dict_keys (fold adjust_dimension adj d) = dict_keys d"
  by (induction adj arbitrary: d) (simp_all add: adjust_dimension_keys)

lemma adjust_dimension_lookup:
  "map_of (adjust_dimension (k, m) d) x =
     (if x = k then map_option (\<lambda>v. clamp01 (v * m)) (map_of d x) else map_of d x)"
  by (auto simp: adjust_dimension_def map_of_dict_set clamp01_def split: option.splits)

lemma fold_adjust_lookup:
  "distinct (map fst adj) \<Longrightarrow>
   map_of (fold adjust_dimension adj d) x =
     map_option (\<lambda>v. case map_of adj x of Some m \<Rightarrow> clamp01 (v * m) | None \<Rightarrow> v) (map_of d x)"
proof (induction adj arbitrary: d)
  case Nil
  then show ?case by (simp add: option.map_ident)
next
  case (Cons a adj)
  obtain k m where a: "a = (k, m)" by (cases a)
  from Cons.prems a have k: "k \<notin> fst ` set adj" and dist: "distinct (map fst adj)" by auto
  from k have none: "map_of adj k = None" by (simp add: map_of_eq_None_iff)
  show ?case
    using Cons.IH [OF dist, of "adjust_dimension (k, m) d"] none
    by (cases "map_of d x") (auto simp: a adjust_dimension_lookup)
qed

lemma dict_set_values:
  "set (dict_values (dict_set d k v)) \<subseteq> insert v (set (dict_values d))"
  unfolding dict_values_def dict_set_def by (induction d) auto

lemma adjust_dimension_unit:
  "\<forall>v \<in> set (dict_values d). 0 \<le> v \<and> v \<le> 1 \<Longrightarrow>
   \<forall>v \<in> set (dict_values (adjust_dimension a d)). 0 \<le> v \<and> v \<le> 1"
proof (cases a)
  case (Pair k m)
  assume u: "\<forall>v \<in> set (dict_values d). 0 \<le> v \<and> v \<le> 1"
  show ?thesis
  proof (cases "map_of d k")
    case None
    with u Pair show ?thesis by (simp add: adjust_dimension_def)
  next
    case (Some c)
    have "set (dict_values (dict_set d k (max 0 (min 1 (c * m)))))
            \<subseteq> insert (max 0 (min 1 (c * m))) (set (dict_values d))"
      by (rule dict_set_values)
    with u show ?thesis unfolding Pair adjust_dimension_def using Some by (auto simp: Let_def)
  qed
qed

lemma fold_adjust_unit:
  "\<forall>v \<in> set (dict_values d). 0 \<le> v \<and> v \<le> 1 \<Longrightarrow>
   \<forall>v \<in> set (dict_values (fold adjust_dimension adj d)). 0 \<le> v \<and> v \<le> 1"
proof (induction adj arbitrary: d)
  case Nil
  then show ?case by simp
next
  case (Cons a adj)
  have "\<forall>v \<in> set (dict_values (adjust_dimension a d)). 0 \<le> v \<and> v \<le> 1"
    using Cons.prems by (rule adjust_dimension_unit)
  then have "\<forall>v \<in> set (dict_values (fold adjust_dimension adj (adjust_dimension a d))).
               0 \<le> v \<and> v \<le> 1"
    by (rule Cons.IH)
  then show ?case by simp
qed

lemma adjustments_distinct:
  "map_of INDUSTRY_VOICE_ADJUSTMENTS industry = Some adj \<Longrightarrow> distinct (map fst adj)"
  by (auto simp: INDUSTRY_VOICE_ADJUSTMENTS_def split: if_splits)

text \<open>
  C10. For every voice signature and every industry, the adjusted signature has the keys of
  the input, in the same order. An industry without an entry in the table leaves the
  signature as it is. For an industry with an entry, a dimension listed for it has its value
  multiplied by the factor and clamped to [0, 1], and every other dimension keeps its value.
  If all values of the input lie in [0, 1], so do all values of the result.
\<close>

theorem apply_industry_adjustments_spec:
  "dict_keys (apply_industry_adjustments sig industry) = dict_keys sig \<and>
   (map_of INDUSTRY_VOICE_ADJUSTMENTS industry = None \<longrightarrow>
      apply_industry_adjustments sig industry = sig) \<and>
   (\<forall>adjustments. map_of INDUSTRY_VOICE_ADJUSTMENTS industry = Some adjustments \<longrightarrow>
      (\<forall>d. map_of (apply_industry_adjustments sig industry) d =
             map_option (\<lambda>v. case map_of adjustments d of
                                Some m \<Rightarrow> clamp01 (v * m)
                              | None \<Rightarrow> v)
                        (map_of sig d))) \<and>
   ((\<forall>v \<in> set (dict_values sig). 0 \<le> v \<and> v \<le> 1) \<longrightarrow>
      (\<forall>v \<in> set (dict_values (apply_industry_adjustments sig industry)). 0 \<le> v \<and> v \<le> 1))"
proof (cases "map_of INDUSTRY_VOICE_ADJUSTMENTS industry")
  case None
  then have "apply_industry_adjustments sig industry = sig"
    by (simp add: apply_industry_adjustments_def)
  with None show ?thesis by simp
next
  case (Some adj)
  then have eq: "apply_industry_adjustments sig industry = fold adjust_dimension adj sig"
    by (simp add: apply_industry_adjustments_def)
  have dist: "distinct (map fst adj)"
    using Some by (rule adjustments_distinct)
  have keys: "dict_keys (apply_industry_adjustments sig industry) = dict_keys sig"
    unfolding eq by (rule fold_adjust_keys)
  have look: "map_of (apply_industry_adjustments sig industry) d =
      map_option (\<lambda>v. case map_of adj d of Some m \<Rightarrow> clamp01 (v * m) | None \<Rightarrow> v)
        (map_of sig d)" for d
    unfolding eq using dist by (rule fold_adjust_lookup)
  have unit: "\<forall>v \<in> set (dict_values (apply_industry_adjustments sig industry)).
                0 \<le> v \<and> v \<le> 1"
    if "\<forall>v \<in> set (dict_values sig). 0 \<le> v \<and> v \<le> 1"
    unfolding eq using that by (rule fold_adjust_unit)
  from keys look unit Some show ?thesis by (intro conjI impI allI) simp_all
qed

theorem apply_industry_adjustments_spec_witness:
  "map_of INDUSTRY_VOICE_ADJUSTMENTS ''retail'' = None \<and>
   apply_industry_adjustments default_signature ''retail'' = default_signature \<and>
   map_of INDUSTRY_VOICE_ADJUSTMENTS ''finance'' =
     Some [(''formality_level'', 1.3), (''authority_tone'', 1.2), (''technical_depth'', 1.1)] \<and>
   map_of (apply_industry_adjustments default_signature ''finance'') ''formality_level''
     = Some 0.65 \<and>
   map_of (apply_industry_adjustments default_signature ''finance'') ''humor_usage''
     = Some 0.1 \<and>
   list_all (\<lambda>v. 0 \<le> v \<and> v \<le> 1) (dict_values default_signature) \<and>
   list_all (\<lambda>v. 0 \<le> v \<and> v \<le> 1)
     (dict_values (apply_industry_adjustments default_signature ''finance''))"
proof -
  let ?fin = "[(''formality_level'', 1.3), (''authority_tone'', 1.2), (''technical_depth'', 1.1)]
                :: scores"
  have none: "map_of INDUSTRY_VOICE_ADJUSTMENTS ''retail'' = None"
    by (simp add: INDUSTRY_VOICE_ADJUSTMENTS_def)
  have some: "map_of INDUSTRY_VOICE_ADJUSTMENTS ''finance'' = Some ?fin"
    by (simp add: INDUSTRY_VOICE_ADJUSTMENTS_def)
  have unit: "\<forall>v \<in> set (dict_values default_signature). 0 \<le> v \<and> v \<le> 1"
    by (simp add: default_signature_def dict_values_def)
  have same: "apply_industry_adjustments default_signature ''retail'' = default_signature"
    using apply_industry_adjustments_spec [of default_signature "''retail''"] none by blast
  have look: "map_of (apply_industry_adjustments default_signature ''finance'') d =
      map_option (\<lambda>v. case map_of ?fin d of Some m \<Rightarrow> clamp01 (v * m) | None \<Rightarrow> v)
        (map_of default_signature d)" for d
    using apply_industry_adjustments_spec [of default_signature "''finance''"] some by blast
  have f: "map_of (apply_industry_adjustments default_signature ''finance'') ''formality_level''
             = Some 0.65"
    unfolding look by (simp add: default_signature_def clamp01_def)
  have h: "map_of (apply_industry_adjustments default_signature ''finance'') ''humor_usage''
             = Some 0.1"
    unfolding look by (simp add: default_signature_def)
  have "\<forall>v \<in> set (dict_values (apply_industry_adjustments default_signature ''finance'')).
          0 \<le> v \<and> v \<le> 1"
    using apply_industry_adjustments_spec [of default_signature "''finance''"] unit by blast
  with none same some f h unit show ?thesis
    unfolding list_all_iff by blast
qed

section \<open>Properties of the profile comparator\<close>

lemma compare_dimensions_gen:
  "fold (\<lambda>dimension (similarity_by_dimension, difference_by_dimension, similarities).
            (let score1 = get_voice_dimension p1 dimension;
                 score2 = get_voice_dimension p2 dimension;
                 diff = \<bar>score1 - score2\<bar>;
                 similarity = 1.0 - diff
             in (dict_set similarity_by_dimension dimension similarity,
                 dict_set difference_by_dimension dimension diff,
                 similarities @ [similarity])))
         dims (ds, df, sims)
   = (fold (\<lambda>d acc. dict_set acc d (1 - \<bar>get_voice_dimension p1 d - get_voice_dimension p2 d\<bar>)) dims ds,
      fold (\<lambda>d acc. dict_set acc d \<bar>get_voice_dimension p1 d - get_voice_dimension p2 d\<bar>) dims df,
      sims @ map (\<lambda>d. 1 - \<bar>get_voice_dimension p1 d - get_voice_dimension p2 d\<bar>) dims)"
  by (induction dims arbitrary: ds df sims) (simp_all add: Let_def)

lemma fold_dict_set_keys_fresh:
  "distinct ks \<Longrightarrow> set ks \<inter> set (dict_keys acc) = {} \<Longrightarrow>
   fold (\<lambda>d acc. dict_set acc d (f d)) ks acc = acc @ map (\<lambda>d. (d, f d)) ks"
proof (induction ks arbitrary: acc)
  case Nil
  then show ?case by simp
next
  case (Cons k ks)
  from Cons.prems have fresh: "k \<notin> set (dict_keys acc)" by auto
  have step: "dict_set acc k (f k) = acc @ [(k, f k)]"
    using fresh by (rule dict_keys_dict_set_absent)
  have "set ks \<inter> set (dict_keys (acc @ [(k, f k)])) = {}"
    using Cons.prems by (auto simp: dict_keys_def)
  with Cons.IH [of "acc @ [(k, f k)]"] Cons.prems step show ?case by simp
qed

lemma compare_dimensions_eq:
  "distinct dims \<Longrightarrow> compare_dimensions p1 p2 dims =
    (map (\<lambda>d. (d, 1 - \<bar>get_voice_dimension p1 d - get_voice_dimension p2 d\<bar>)) dims,
     map (\<lambda>d. (d, \<bar>get_voice_dimension p1 d - get_voice_dimension p2 d\<bar>)) dims,
     map (\<lambda>d. 1 - \<bar>get_voice_dimension p1 d - get_voice_dimension p2 d\<bar>) dims)"
  unfolding compare_dimensions_def compare_dimensions_gen
  by (simp add: fold_dict_set_keys_fresh dict_keys_def)

lemma all_dimensions_set:
  "set (all_dimensions p1 p2) = set (dict_keys (voice_signature p1)) \<union> set (dict_keys (voice_signature p2))"
  by (simp add: all_dimensions_def)

lemma all_dimensions_distinct: "distinct (all_dimensions p1 p2)"
  by (simp add: all_dimensions_def)

lemma similarities_mean:
  "sum_list (map (spec_similarity (voice_signature p1) (voice_signature p2)) (all_dimensions p1 p2))
     / real (length (all_dimensions p1 p2))
   = spec_overall_similarity (voice_signature p1) (voice_signature p2)"
  unfolding spec_overall_similarity_def all_dimensions_set [symmetric]
  by (simp add: sum_list_distinct_conv_sum_set all_dimensions_distinct distinct_card)

lemma compare_profiles_eq:
  "compare_profiles p1 p2 =
    (let sigA = voice_signature p1; sigB = voice_signature p2;
         dims = all_dimensions p1 p2;
         overall = (if dims \<noteq> [] then spec_overall_similarity sigA sigB else 0)
     in if 0 \<le> overall \<and> overall \<le> 1
        then Inr \<lparr>profile1_id = user_id p1, profile2_id = user_id p2,
                  overall_similarity = overall,
                  dimension_similarities = map (\<lambda>d. (d, spec_similarity sigA sigB d)) dims,
                  differences = map (\<lambda>d. (d, \<bar>dict_get sigA d 0 - dict_get sigB d 0\<bar>)) dims,
                  recommendation = Some (recommend overall)\<rparr>
        else Inl ValidationError)"
proof -
  let ?A = "voice_signature p1" and ?B = "voice_signature p2"
  have sim: "(\<lambda>d. 1 - \<bar>get_voice_dimension p1 d - get_voice_dimension p2 d\<bar>)
        = spec_similarity ?A ?B"
    by (rule ext) (simp add: spec_similarity_def get_voice_dimension_def)
  have dif: "(\<lambda>d. (d, \<bar>get_voice_dimension p1 d - get_voice_dimension p2 d\<bar>))
        = (\<lambda>d. (d, \<bar>dict_get ?A d 0 - dict_get ?B d 0\<bar>))"
    by (rule ext) (simp add: get_voice_dimension_def)
  have pair: "(\<lambda>d. (d, 1 - \<bar>get_voice_dimension p1 d - get_voice_dimension p2 d\<bar>))
        = (\<lambda>d. (d, spec_similarity ?A ?B d))"
    by (rule ext) (simp add: spec_similarity_def get_voice_dimension_def)
  have cd: "compare_dimensions p1 p2 (all_dimensions p1 p2) =
      (map (\<lambda>d. (d, spec_similarity ?A ?B d)) (all_dimensions p1 p2),
       map (\<lambda>d. (d, \<bar>dict_get ?A d 0 - dict_get ?B d 0\<bar>)) (all_dimensions p1 p2),
       map (spec_similarity ?A ?B) (all_dimensions p1 p2))"
    unfolding compare_dimensions_eq [OF all_dimensions_distinct] sim dif pair ..
  show ?thesis
    unfolding compare_profiles_def cd
    by (simp add: Let_def similarities_mean)
qed

lemma dict_get_unit:
  "unit_scores sig \<Longrightarrow> 0 \<le> dict_get sig d 0 \<and> dict_get sig d 0 \<le> 1"
proof (cases "map_of sig d")
  case None
  then show ?thesis by (simp add: dict_get_def)
next
  case (Some v)
  assume u: "unit_scores sig"
  from Some have "(d, v) \<in> set sig" by (rule map_of_SomeD)
  then have "v \<in> set (dict_values sig)" by (force simp: dict_values_def)
  with u have "0 \<le> v \<and> v \<le> 1" by (simp add: unit_scores_def list_all_iff)
  with Some show ?thesis by (simp add: dict_get_def)
qed

lemma spec_similarity_unit:
  "unit_scores sigA \<Longrightarrow> unit_scores sigB \<Longrightarrow>
   0 \<le> spec_similarity sigA sigB d \<and> spec_similarity sigA sigB d \<le> 1"
  using dict_get_unit [of sigA d] dict_get_unit [of sigB d]
  by (simp add: spec_similarity_def abs_if)

lemma spec_overall_similarity_unit:
  assumes "unit_scores sigA" "unit_scores sigB"
  shows "0 \<le> spec_overall_similarity sigA sigB \<and> spec_overall_similarity sigA sigB \<le> 1"
proof -
  let ?D = "set (dict_keys sigA) \<union> set (dict_keys sigB)"
  have fin: "finite ?D" by simp
  have lo: "0 \<le> (\<Sum>d \<in> ?D. spec_similarity sigA sigB d)"
    by (rule sum_nonneg) (simp add: spec_similarity_unit assms)
  have "(\<Sum>d \<in> ?D. spec_similarity sigA sigB d) \<le> (\<Sum>d \<in> ?D. 1)"
    by (rule sum_mono) (simp add: spec_similarity_unit assms)
  then have hi: "(\<Sum>d \<in> ?D. spec_similarity sigA sigB d) \<le> real (card ?D)" by simp
  show ?thesis
    unfolding spec_overall_similarity_def using lo hi
    by (cases "card ?D = 0") (simp_all add: divide_le_eq)
qed

lemma all_dimensions_Nil:
  "all_dimensions p1 p2 = [] \<longleftrightarrow> voice_signature p1 = [] \<and> voice_signature p2 = []"
  by (simp add: all_dimensions_def dict_keys_def)

text \<open>
  C4. For any two profiles of which at least one has a dimension, the comparison computes
  for every dimension of the union of the two signatures the similarity
  1 - |scoreA - scoreB|, a dimension missing from one signature counting as 0.0, and the
  overall similarity it returns is the arithmetic mean of these similarities. It returns
  whenever the values of both signatures lie in [0, 1]; the only failure is the validation
  of an overall similarity outside [0, 1].
\<close>

theorem compare_profiles_mean:
  assumes "voice_signature p1 \<noteq> [] \<or> voice_signature p2 \<noteq> []"
  shows "(case compare_profiles p1 p2 of
            Inr r \<Rightarrow>
              overall_similarity r =
                spec_overall_similarity (voice_signature p1) (voice_signature p2) \<and>
              dimension_similarities r =
                map (\<lambda>d. (d, spec_similarity (voice_signature p1) (voice_signature p2) d))
                    (all_dimensions p1 p2) \<and>
              set (dict_keys (dimension_similarities r)) =
                set (dict_keys (voice_signature p1)) \<union> set (dict_keys (voice_signature p2))
          | Inl e \<Rightarrow>
              e = ValidationError \<and>
              \<not> (0 \<le> spec_overall_similarity (voice_signature p1) (voice_signature p2) \<and>
                 spec_overall_similarity (voice_signature p1) (voice_signature p2) \<le> 1)) \<and>
         (unit_scores (voice_signature p1) \<and> unit_scores (voice_signature p2) \<longrightarrow>
            (\<exists>r. compare_profiles p1 p2 = Inr r))"
proof -
  from assms have ne: "all_dimensions p1 p2 \<noteq> []"
    by (simp add: all_dimensions_Nil)
  have keys: "set (dict_keys (map (\<lambda>d. (d, f d)) (all_dimensions p1 p2))) =
      set (dict_keys (voice_signature p1)) \<union> set (dict_keys (voice_signature p2))"
    for f :: "string \<Rightarrow> real"
    by (simp add: dict_keys_def comp_def all_dimensions_set [unfolded dict_keys_def])
  have first: "?thesis" if "0 \<le> spec_overall_similarity (voice_signature p1) (voice_signature p2) \<and>
                 spec_overall_similarity (voice_signature p1) (voice_signature p2) \<le> 1"
    using that ne keys by (simp add: compare_profiles_eq Let_def)
  have second: "?thesis" if "\<not> (0 \<le> spec_overall_similarity (voice_signature p1) (voice_signature p2) \<and>
                 spec_overall_similarity (voice_signature p1) (voice_signature p2) \<le> 1)"
    using that ne spec_overall_similarity_unit [of "voice_signature p1" "voice_signature p2"]
    by (auto simp add: compare_profiles_eq Let_def)
  from first second show ?thesis by blast
qed

theorem compare_profiles_mean_witness:
  "voice_signature \<lparr>user_id = ''a'', voice_signature = [(''x'', 1)]\<rparr> \<noteq> [] \<and>
   unit_scores [(''x'', 1)] \<and> unit_scores [(''y'', 0.5)] \<and>
   spec_overall_similarity [(''x'', 1)] [(''y'', 0.5)] = 1 / 4 \<and>
   map_sum id overall_similarity
     (compare_profiles \<lparr>user_id = ''a'', voice_signature = [(''x'', 1)]\<rparr>
                       \<lparr>user_id = ''b'', voice_signature = [(''y'', 0.5)]\<rparr>) = Inr (1 / 4)"
proof -
  let ?p = "\<lparr>user_id = ''a'', voice_signature = [(''x'', 1)]\<rparr>"
  let ?q = "\<lparr>user_id = ''b'', voice_signature = [(''y'', 0.5)]\<rparr>"
  have ne: "voice_signature ?p \<noteq> [] \<or> voice_signature ?q \<noteq> []" by simp
  have u: "unit_scores [(''x'', 1)]" "unit_scores [(''y'', 0.5)]"
    by (simp_all add: unit_scores_def dict_values_def)
  have v: "spec_overall_similarity [(''x'', 1)] [(''y'', 0.5)] = 1 / 4"
    by (simp add: spec_overall_similarity_def spec_similarity_def dict_keys_def dict_get_def)
  from compare_profiles_mean [OF ne] u obtain r where
    r: "compare_profiles ?p ?q = Inr r" by auto
  with compare_profiles_mean [OF ne] have
    "overall_similarity r = spec_overall_similarity (voice_signature ?p) (voice_signature ?q)"
    by simp
  also have "\<dots> = 1 / 4" using v by simp
  finally have "overall_similarity r = 1 / 4" .
  with r ne u v show ?thesis by simp
qed

lemma spec_similarity_self: "spec_similarity sig sig d = 1"
  by (simp add: spec_similarity_def)

lemma spec_overall_similarity_self:
  "sig \<noteq> [] \<Longrightarrow> spec_overall_similarity sig sig = 1"
proof -
  assume "sig \<noteq> []"
  then have "set (dict_keys sig) \<noteq> {}" by (simp add: dict_keys_def)
  then have "card (set (dict_keys sig)) \<noteq> 0" by simp
  then show ?thesis
    by (simp add: spec_overall_similarity_def spec_similarity_self)
qed

text \<open>
  C5 (as stated, refuted). Comparing the profile with the empty signature with itself
  gives the overall similarity 0.0, not 1.0: the mean is guarded by
  \<^verbatim>\<open>if similarities else 0.0\<close>.
\<close>

theorem compare_profiles_self_empty:
  "compare_profiles \<lparr>user_id = ''u'', voice_signature = []\<rparr>
                    \<lparr>user_id = ''u'', voice_signature = []\<rparr> =
     Inr \<lparr>profile1_id = ''u'', profile2_id = ''u'', overall_similarity = 0,
          dimension_similarities = [], differences = [],
          recommendation =
            Some ''Significant style differences - may need separate content strategies''\<rparr>"
  by (simp add: compare_profiles_def compare_dimensions_def all_dimensions_def dict_keys_def
      recommend_def)

text \<open>
  C5 (amended). Comparing a profile with itself gives the overall similarity 1.0 when its
  signature has at least one dimension, and 0.0 when its signature is empty.
\<close>

theorem compare_profiles_self:
  "(voice_signature p \<noteq> [] \<longrightarrow>
      (\<exists>r. compare_profiles p p = Inr r \<and> overall_similarity r = 1)) \<and>
   (voice_signature p = [] \<longrightarrow>
      (\<exists>r. compare_profiles p p = Inr r \<and> overall_similarity r = 0))"
  by (simp add: compare_profiles_eq Let_def all_dimensions_Nil spec_overall_similarity_self)

theorem compare_profiles_self_witness:
  "voice_signature \<lparr>user_id = ''u'', voice_signature = [(''humor_usage'', 0.1)]\<rparr> \<noteq> [] \<and>
   map_sum id overall_similarity
     (compare_profiles \<lparr>user_id = ''u'', voice_signature = [(''humor_usage'', 0.1)]\<rparr>
                       \<lparr>user_id = ''u'', voice_signature = [(''humor_usage'', 0.1)]\<rparr>) = Inr 1 \<and>
   voice_signature \<lparr>user_id = ''v'', voice_signature = []\<rparr> = [] \<and>
   map_sum id overall_similarity
     (compare_profiles \<lparr>user_id = ''v'', voice_signature = []\<rparr>
                       \<lparr>user_id = ''v'', voice_signature = []\<rparr>) = Inr 0"
proof -
  let ?p = "\<lparr>user_id = ''u'', voice_signature = [(''humor_usage'', 0.1)]\<rparr>"
  let ?q = "\<lparr>user_id = ''v'', voice_signature = []\<rparr>"
  have "\<exists>r. compare_profiles ?p ?p = Inr r \<and> overall_similarity r = 1"
    using compare_profiles_self [of ?p] by simp
  moreover have "\<exists>r. compare_profiles ?q ?q = Inr r \<and> overall_similarity r = 0"
    using compare_profiles_self [of ?q] by simp
  ultimately show ?thesis by auto
qed

section \<open>Properties of the template selector\<close>

lemma max_first_mem: "max_first key best xs \<in> insert best (set xs)"
  by (induction xs arbitrary: best) (auto split: if_splits)

lemma get_default_templates_first:
  "\<exists>rest. get_default_templates = \<lparr>template_id = ''professional_insight'',
      name = ''Professional Insight'',
      description = ''Share a professional insight or lesson learned'',
      content_type = ''post'',
      industry_tags = [''technology'', ''business'', ''marketing'', ''finance''],
      use_case = ''thought_leadership''\<rparr> # rest"
  by (simp add: get_default_templates_def)

text \<open>
  C6. For every voice signature and requested content type: when at least one of the
  available templates has that content type, the selection returns one of them, so the
  returned template has the requested content type; when none has it, the selection returns
  the first of the available templates. It never fails.
\<close>

theorem get_template_for_voice_profile_content_type:
  "((\<exists>t \<in> set get_default_templates. content_type t = requested) \<longrightarrow>
      (\<exists>t. get_template_for_voice_profile signature requested = Inr t \<and>
           t \<in> set get_default_templates \<and> content_type t = requested)) \<and>
   ((\<forall>t \<in> set get_default_templates. content_type t \<noteq> requested) \<longrightarrow>
      (\<exists>t rest. get_default_templates = t # rest \<and>
           get_template_for_voice_profile signature requested = Inr t))"
proof (intro conjI impI)
  let ?m = "filter (\<lambda>t. content_type t = requested) get_default_templates"
  assume "\<exists>t \<in> set get_default_templates. content_type t = requested"
  then have ne: "?m \<noteq> []" by (auto simp: filter_empty_conv)
  then obtain first rest where m: "?m = first # rest" by (cases ?m) auto
  let ?sc = "\<lambda>t. (t, score_template signature t)"
  let ?best = "max_first snd (?sc first) (map ?sc rest)"
  have res: "get_template_for_voice_profile signature requested = Inr (fst ?best)"
    by (simp add: get_template_for_voice_profile_def Let_def m)
  have "?best \<in> insert (?sc first) (set (map ?sc rest))" by (rule max_first_mem)
  then have "fst ?best \<in> set (first # rest)" by auto
  then have "fst ?best \<in> set ?m" by (simp only: m)
  then have "fst ?best \<in> set get_default_templates \<and> content_type (fst ?best) = requested"
    by simp
  with res show "\<exists>t. get_template_for_voice_profile signature requested = Inr t \<and>
           t \<in> set get_default_templates \<and> content_type t = requested" by blast
next
  assume "\<forall>t \<in> set get_default_templates. content_type t \<noteq> requested"
  then have e: "filter (\<lambda>t. content_type t = requested) get_default_templates = []"
    by (auto simp: filter_empty_conv)
  from get_default_templates_first obtain t rest where d: "get_default_templates = t # rest"
    by blast
  have "get_template_for_voice_profile signature requested = Inr t"
    using e by (simp add: get_template_for_voice_profile_def Let_def d)
  with d show "\<exists>t rest. get_default_templates = t # rest \<and>
           get_template_for_voice_profile signature requested = Inr t" by blast
qed


theorem get_template_for_voice_profile_content_type_witness:
  "list_ex (\<lambda>t. content_type t = ''article'') get_default_templates \<and>
   map_sum id content_type (get_template_for_voice_profile [] ''article'') = Inr ''article'' \<and>
   list_all (\<lambda>t. content_type t \<noteq> ''poll'') get_default_templates \<and>
   map_sum id template_id (get_template_for_voice_profile [] ''poll'')
     = Inr ''professional_insight''"
proof -
  have ex: "\<exists>t \<in> set get_default_templates. content_type t = ''article''"
    by (simp add: get_default_templates_def)
  have all: "\<forall>t \<in> set get_default_templates. content_type t \<noteq> ''poll''"
    by (simp add: get_default_templates_def)
  from get_template_for_voice_profile_content_type [of "''article''" "[]"] ex
  obtain t where "get_template_for_voice_profile [] ''article'' = Inr t"
    and "content_type t = ''article''" by blast
  then have a: "map_sum id content_type (get_template_for_voice_profile [] ''article'')
                  = Inr ''article''" by simp
  from get_template_for_voice_profile_content_type [of "''poll''" "[]"] all
  obtain u rest where d: "get_default_templates = u # rest"
    and r: "get_template_for_voice_profile [] ''poll'' = Inr u" by blast
  have h: "template_id (hd get_default_templates) = ''professional_insight''"
    by (simp add: get_default_templates_def)
  have "hd get_default_templates = u" unfolding d by simp
  with h have "template_id u = ''professional_insight''" by (simp only:)
  with r have p: "map_sum id template_id (get_template_for_voice_profile [] ''poll'')
                    = Inr ''professional_insight''" by simp
  from ex all a p show ?thesis by (simp add: list_ex_iff list_all_iff)
qed

section \<open>Properties of the voice analysis entry point\<close>

lemma analyze_voice_insufficient:
  "conversation_data \<noteq> [] \<Longrightarrow>
   int (length (combine_transcriptions conversation_data)) < min_length \<Longrightarrow>
   analyze_voice min_length an conversation_data uid =
     Inl (InsufficientText (length (combine_transcriptions conversation_data)))"
  by (cases conversation_data) (simp_all add: analyze_voice_def Let_def)

text \<open>
  C8 (the code departs from the claim). The claim: whenever the combined transcript is
  shorter than the minimum length, the entry point reports insufficient input and does not
  fuse. On the empty conversation the combined text is empty, hence too short, but the
  entry point fails with an IndexError from its first logging statement; the insufficient
  input is not reported. \<open>analyze_voice_insufficient\<close> above is the claim on every non-empty
  conversation.
\<close>

theorem analyze_voice_empty_conversation:
  "combine_transcriptions [] = [] \<and>
   int (length (combine_transcriptions [])) < 50 \<and>
   analyze_voice 50 an [] uid = Inl IndexError"
  by (simp add: combine_transcriptions_def analyze_voice_def)

lemma analyze_voice_blank_turn:
  "analyze_voice 50 an
     [\<lparr>question_id = ''q1'', transcription = Some ''  '', metadata = None\<rparr>] uid =
   Inl (InsufficientText 0)"
  by (simp add: analyze_voice_def combine_transcriptions_def str_strip_def is_space_def
      whitespace_def)

end
